theory Spec2Isabelle
  imports Complex_Main "HOL-Library.Word"
begin

section \<open>JavaScript values used by \<^verbatim>\<open>App.tsx\<close>\<close>

text \<open>
  A JavaScript string is a sequence of 16-bit code units. Literals of the source are
  ASCII, written here as HOL strings and lifted by \<open>utf16\<close>.
\<close>

type_synonym jschar = "16 word"
type_synonym jsstring = "jschar list"
type_synonym byte = "8 word"

definition utf16 :: "string \<Rightarrow> jsstring" where
  "utf16 s = map (\<lambda>c. of_char c) s"

text \<open>
  \<^verbatim>\<open>String.prototype.trim\<close> strips the code units of ECMAScript's WhiteSpace and
  LineTerminator productions from both ends: TAB, LF, VT, FF, CR, SP, NBSP, U+1680,
  U+2000..U+200A, LS, PS, U+202F, U+205F, U+3000 and the BOM U+FEFF.
\<close>

definition isWhiteSpace :: "jschar \<Rightarrow> bool" where
  "isWhiteSpace c \<longleftrightarrow>
     c \<in> {0x9, 0xA, 0xB, 0xC, 0xD, 0x20, 0xA0, 0x1680,
           0x2028, 0x2029, 0x202F, 0x205F, 0x3000, 0xFEFF}
     \<or> (0x2000 \<le> c \<and> c \<le> 0x200A)"

definition trim :: "jsstring \<Rightarrow> jsstring" where
  "trim s = rev (dropWhile isWhiteSpace (rev (dropWhile isWhiteSpace s)))"

text \<open>Truthiness of a string (\<^verbatim>\<open>!s\<close>, \<^verbatim>\<open>s ? a : b\<close>): only the empty string is falsy.\<close>

definition truthy :: "jsstring \<Rightarrow> bool" where
  "truthy s \<longleftrightarrow> s \<noteq> []"

text \<open>Truthiness of \<^verbatim>\<open>string | null\<close>: \<^verbatim>\<open>null\<close> is falsy.\<close>

definition truthyOpt :: "jsstring option \<Rightarrow> bool" where
  "truthyOpt v = (case v of None \<Rightarrow> False | Some s \<Rightarrow> truthy s)"

text \<open>
  A JavaScript number is an IEEE double: a real value, an infinity or NaN. The source
  only stores numbers and compares them with \<^verbatim>\<open>!==\<close>, under which NaN differs from
  every number, itself included. The two zeros are strictly equal and are one value here.
\<close>

datatype number = Finite real | PosInfinity | NegInfinity | NaN

definition strictNotEq :: "number \<Rightarrow> number \<Rightarrow> bool" where
  "strictNotEq a b \<longleftrightarrow> a = NaN \<or> b = NaN \<or> a \<noteq> b"

text \<open>\<^verbatim>\<open>xs?.[0]\<close> on an array that may be absent.\<close>

definition first :: "'a list \<Rightarrow> 'a option" where
  "first xs = (case xs of [] \<Rightarrow> None | x # _ \<Rightarrow> Some x)"

section \<open>The component state\<close>

text \<open>
  The \<^verbatim>\<open>useState\<close> cells of \<^verbatim>\<open>App\<close> (lines 44 to 55). The cell \<^verbatim>\<open>text\<close> is named
  \<open>text_field\<close>. \<^verbatim>\<open>audioUrl\<close> only ever holds \<^verbatim>\<open>null\<close> or a string returned by
  \<^verbatim>\<open>URL.createObjectURL\<close>, so it is an optional object-URL handle.
\<close>

datatype objectURL = BlobURL nat

record app_state =
  narratorScript :: jsstring
  isAnalyzing :: bool
  text_field :: jsstring
  styleInstructions :: jsstring
  selectedVoice :: jsstring
  speed :: number
  pitch :: number
  isLoading :: bool
  audioUrl :: "objectURL option"
  error :: "jsstring option"
  isVoiceListOpen :: bool
  previewLoadingVoiceId :: "jsstring option"

section \<open>Requests to and responses of the remote model\<close>

text \<open>
  The object built at lines 158 to 173: \<^verbatim>\<open>voiceConfig.prebuiltVoiceConfig.voiceName\<close>
  and the optional properties \<^verbatim>\<open>rate\<close> and \<^verbatim>\<open>pitch\<close> (here \<open>pitch'\<close>), absent as \<open>None\<close>.
\<close>

record speechConfig =
  voiceName :: jsstring
  rate :: "number option"
  pitch' :: "number option"

text \<open>
  The two shapes of argument passed to \<^verbatim>\<open>ai.models.generateContent\<close>: a speech request
  (model, the text of the single part, and the speech configuration, with
  \<^verbatim>\<open>responseModalities: [Modality.AUDIO]\<close>), and a plain text request.
\<close>

datatype generateContentParams =
    SpeechParams (model: jsstring) (promptText: jsstring) (config: speechConfig)
  | TextParams (model: jsstring) (promptText: jsstring)

text \<open>The part of a response the handlers read, every level optional as in the source.\<close>

datatype inline_blob = InlineBlob (data: "jsstring option")
datatype part = Part (inlineData: "inline_blob option")
datatype content = Content (parts: "part list option")
datatype candidate = Candidate (content: "content option")

record generateContentResponse =
  candidates :: "candidate list option"
  response_text :: "jsstring option"

text \<open>
  An awaited call settles: it is fulfilled with a response, or it is rejected with an
  error of which the handlers read only \<^verbatim>\<open>err.message\<close>.
\<close>

datatype settled = Fulfilled generateContentResponse | Rejected jsstring

text \<open>\<^verbatim>\<open>response.candidates?.[0]?.content?.parts?.[0]?.inlineData?.data\<close>\<close>

definition base64AudioOf :: "generateContentResponse \<Rightarrow> jsstring option" where
  "base64AudioOf response =
     Option.bind (candidates response) (\<lambda>cs.
     Option.bind (first cs) (\<lambda>c.
     Option.bind (content c) (\<lambda>ct.
     Option.bind (parts ct) (\<lambda>ps.
     Option.bind (first ps) (\<lambda>p.
     Option.bind (inlineData p) data)))))"

section \<open>The audio container\<close>

text \<open>The format argument of \<^verbatim>\<open>pcmToWavBlob\<close> as the call sites build it (lines 95, 191 to 195).\<close>

record wav_format =
  sampleRate :: nat
  numChannels :: nat
  bitsPerSample :: nat

text \<open>The numeric fields of the container's header.\<close>

record wav_header =
  riffChunkSize :: nat
  fmtChunkSize :: nat
  audioFormat :: nat
  channels :: nat
  samplesPerSec :: nat
  byteRate :: nat
  blockAlign :: nat
  bitsPerSample_h :: nat
  dataChunkSize :: nat

text \<open>
  Modelled from the spec: \<^verbatim>\<open>pcmToWavBlob\<close> (the spec's \<^verbatim>\<open>encodeAsContainer\<close>) is imported
  from \<^verbatim>\<open>./utils/audio\<close>, which is not among the sources. The spec (4.1, 6, 8) fixes the
  two size fields (\<open>N\<close> and \<open>N + 36\<close>), \<open>byteRate\<close>, \<open>blockAlign\<close> and the total length
  \<open>44 + N\<close> of a standard uncompressed PCM container. \<open>wavHeader\<close> holds those field
  values; \<open>headerBytes\<close> lays them out as the canonical 44-byte RIFF/WAVE header, every
  number little-endian in 4 or 2 bytes; the samples follow unchanged.
\<close>

definition wavHeader :: "nat \<Rightarrow> wav_format \<Rightarrow> wav_header" where
  "wavHeader n f =
     \<lparr> riffChunkSize = n + 36,
       fmtChunkSize = 16,
       audioFormat = 1,
       channels = numChannels f,
       samplesPerSec = sampleRate f,
       byteRate = sampleRate f * numChannels f * bitsPerSample f div 8,
       blockAlign = numChannels f * bitsPerSample f div 8,
       bitsPerSample_h = bitsPerSample f,
       dataChunkSize = n \<rparr>"

definition u16le :: "nat \<Rightarrow> byte list" where
  "u16le n = [of_nat n, of_nat (n div 256)]"

definition u32le :: "nat \<Rightarrow> byte list" where
  "u32le n = [of_nat n, of_nat (n div 256), of_nat (n div 65536), of_nat (n div 16777216)]"

definition ascii :: "string \<Rightarrow> byte list" where
  "ascii s = map (\<lambda>c. of_char c) s"

definition headerBytes :: "wav_header \<Rightarrow> byte list" where
  "headerBytes h =
     ascii ''RIFF'' @ u32le (riffChunkSize h) @ ascii ''WAVE'' @
     ascii ''fmt '' @ u32le (fmtChunkSize h) @ u16le (audioFormat h) @
     u16le (channels h) @ u32le (samplesPerSec h) @ u32le (byteRate h) @
     u16le (blockAlign h) @ u16le (bitsPerSample_h h) @
     ascii ''data'' @ u32le (dataChunkSize h)"

definition pcmToWavBlob :: "byte list \<Rightarrow> wav_format \<Rightarrow> byte list" where
  "pcmToWavBlob pcmData f = headerBytes (wavHeader (length pcmData) f) @ pcmData"

text \<open>Reading the header back: a little-endian number of \<open>k\<close> bytes at offset \<open>i\<close>.\<close>

definition le_at :: "nat \<Rightarrow> nat \<Rightarrow> byte list \<Rightarrow> nat" where
  "le_at k i bs = foldr (\<lambda>b acc. unat b + 256 * acc) (take k (drop i bs)) 0"

definition readHeader :: "byte list \<Rightarrow> wav_header" where
  "readHeader bs =
     \<lparr> riffChunkSize = le_at 4 4 bs,
       fmtChunkSize = le_at 4 16 bs,
       audioFormat = le_at 2 20 bs,
       channels = le_at 2 22 bs,
       samplesPerSec = le_at 4 24 bs,
       byteRate = le_at 4 28 bs,
       blockAlign = le_at 2 32 bs,
       bitsPerSample_h = le_at 2 34 bs,
       dataChunkSize = le_at 4 40 bs \<rparr>"

text \<open>A header is representable when every field fits the width of its slot.\<close>

definition fitsHeader :: "wav_header \<Rightarrow> bool" where
  "fitsHeader h \<longleftrightarrow>
     riffChunkSize h < 2 ^ 32 \<and> fmtChunkSize h < 2 ^ 32 \<and> audioFormat h < 2 ^ 16 \<and>
     channels h < 2 ^ 16 \<and> samplesPerSec h < 2 ^ 32 \<and> byteRate h < 2 ^ 32 \<and>
     blockAlign h < 2 ^ 16 \<and> bitsPerSample_h h < 2 ^ 16 \<and> dataChunkSize h < 2 ^ 32"

section \<open>The browser around the component\<close>

text \<open>
  What the handlers do beyond setting state cells: the calls issued to
  \<^verbatim>\<open>ai.models.generateContent\<close>, in order; the object URLs that
  \<^verbatim>\<open>URL.createObjectURL\<close> has handed out and \<^verbatim>\<open>URL.revokeObjectURL\<close> has not yet
  released, each with its blob; and the \<^verbatim>\<open>Audio\<close> elements started by a preview, whose
  \<^verbatim>\<open>onended\<close> callback is pending. \<^verbatim>\<open>console.error\<close> is not modelled.
\<close>

record world =
  ui :: app_state
  requests :: "generateContentParams list"
  objectURLs :: "objectURL \<rightharpoonup> byte list"
  nextURL :: nat
  audios :: "objectURL list"

definition createObjectURL :: "byte list \<Rightarrow> world \<Rightarrow> objectURL \<times> world" where
  "createObjectURL blob w =
     (BlobURL (nextURL w),
      w\<lparr>objectURLs := (objectURLs w)(BlobURL (nextURL w) \<mapsto> blob),
        nextURL := Suc (nextURL w)\<rparr>)"

definition revokeObjectURL :: "objectURL \<Rightarrow> world \<Rightarrow> world" where
  "revokeObjectURL url w = w\<lparr>objectURLs := (objectURLs w)(url := None)\<rparr>"

text \<open>\<^verbatim>\<open>new Audio(url); audio.play(); audio.onended = () => URL.revokeObjectURL(url)\<close>\<close>

definition playAudio :: "objectURL \<Rightarrow> world \<Rightarrow> world" where
  "playAudio url w = w\<lparr>audios := audios w @ [url]\<rparr>"

text \<open>The \<^verbatim>\<open>onended\<close> callback of a preview's audio element fires.\<close>

definition audioEnded :: "objectURL \<Rightarrow> world \<Rightarrow> world" where
  "audioEnded url w =
     (if url \<in> set (audios w) then revokeObjectURL url (w\<lparr>audios := remove1 url (audios w)\<rparr>)
      else w)"

section \<open>Constants of the module\<close>

definition PREVIEW_TEXT :: jsstring where
  "PREVIEW_TEXT = utf16 ''Hello, this is a preview of my voice.''"

definition ttsModel :: jsstring where
  "ttsModel = utf16 ''gemini-2.5-flash-preview-tts''"

definition textModel :: jsstring where
  "textModel = utf16 ''gemini-2.5-flash''"

text \<open>The format both call sites pass to \<^verbatim>\<open>pcmToWavBlob\<close>.\<close>

definition pcmFormat :: wav_format where
  "pcmFormat = \<lparr> sampleRate = 24000, numChannels = 1, bitsPerSample = 16 \<rparr>"

text \<open>The template literal of lines 116 to 122, around \<^verbatim>\<open>${narratorScript}\<close>.\<close>

definition analysisPrompt :: "jsstring \<Rightarrow> jsstring" where
  "analysisPrompt script =
     utf16 ''Analyze the following narrator script and generate a concise 'Style Instruction' for a text-to-speech model. The instruction should capture the script's primary tone, emotion, and intended delivery style. The output should be a single imperative sentence, starting with a verb, similar to 'Read aloud in a warm, welcoming tone:' or 'Speak with a sense of urgency and excitement:'. Do not add any other explanatory text, quotes, or preamble.\<newline>\<newline>Here is the script:\<newline>---\<newline>''
     @ script @ utf16 ''\<newline>---\<newline>Style Instruction:''"

section \<open>\<^verbatim>\<open>handleGenerateSpeech\<close> (lines 141 to 206)\<close>

text \<open>
  An async handler runs in two turns of the event loop. The first turn runs from the call
  to the \<^verbatim>\<open>await\<close>: it returns the new world and the request it has issued, or \<open>None\<close>
  when it returned before issuing one. The second turn runs when the awaited call has
  settled, from the \<^verbatim>\<open>await\<close> through \<^verbatim>\<open>catch\<close> and \<^verbatim>\<open>finally\<close>. It reads no state cell:
  every setter is called with a value computed from the response.

  \<^verbatim>\<open>decode\<close> is imported from \<^verbatim>\<open>./utils/audio\<close>, which is not among the sources; it is a
  parameter, returning the bytes or the message of the error it throws.
\<close>

type_synonym decoder = "jsstring \<Rightarrow> jsstring + byte list"

text \<open>Lines 158 to 173.\<close>

definition buildSpeechConfig :: "jsstring \<Rightarrow> number \<Rightarrow> number \<Rightarrow> speechConfig" where
  "buildSpeechConfig voice spd ptch =
     (let speechConfig = \<lparr> voiceName = voice, rate = None, pitch' = None \<rparr>;
          speechConfig = (if strictNotEq spd (Finite 1) then speechConfig\<lparr>rate := Some spd\<rparr>
                          else speechConfig);
          speechConfig = (if strictNotEq ptch (Finite 0) then speechConfig\<lparr>pitch' := Some ptch\<rparr>
                          else speechConfig)
      in speechConfig)"

text \<open>Lines 152 to 154.\<close>

definition fullPrompt :: "jsstring \<Rightarrow> jsstring \<Rightarrow> jsstring" where
  "fullPrompt style trimmedText =
     (if truthy (trim style) then trim style @ utf16 ''\<newline>\<newline>'' @ trimmedText
      else trimmedText)"

text \<open>Lines 142 to 182, up to the \<^verbatim>\<open>await\<close>.\<close>

definition handleGenerateSpeech_start :: "world \<Rightarrow> world \<times> generateContentParams option" where
  "handleGenerateSpeech_start w =
     (let s = ui w; trimmedText = trim (text_field s) in
      if \<not> truthy trimmedText then
        (w\<lparr>ui := s\<lparr>error := Some (utf16 ''Please enter some text to generate speech.'')\<rparr>\<rparr>,
         None)
      else
        let s' = s\<lparr>error := None, audioUrl := None, isLoading := True\<rparr>;
            request = SpeechParams ttsModel (fullPrompt (styleInstructions s) trimmedText)
                        (buildSpeechConfig (selectedVoice s) (speed s) (pitch s))
        in (w\<lparr>ui := s', requests := requests w @ [request]\<rparr>, Some request))"

text \<open>
  The body of the \<^verbatim>\<open>try\<close> after the \<^verbatim>\<open>await\<close> (lines 184 to 198): \<open>Inl\<close> carries the
  message of the error thrown, \<open>Inr\<close> the world when the body completes.
\<close>

definition generateSpeech_try :: "decoder \<Rightarrow> settled \<Rightarrow> world \<Rightarrow> jsstring + world" where
  "generateSpeech_try decode r w =
     (case r of
        Rejected message \<Rightarrow> Inl message
      | Fulfilled response \<Rightarrow>
          (case base64AudioOf response of
             None \<Rightarrow> Inl (utf16 ''No audio data received from API.'')
           | Some base64Audio \<Rightarrow>
               if \<not> truthy base64Audio then Inl (utf16 ''No audio data received from API.'')
               else
                 (case decode base64Audio of
                    Inl message \<Rightarrow> Inl message
                  | Inr pcmData \<Rightarrow>
                      let wavBlob = pcmToWavBlob pcmData pcmFormat;
                          (url, w') = createObjectURL wavBlob w
                      in Inr (w'\<lparr>ui := (ui w')\<lparr>audioUrl := Some url\<rparr>\<rparr>))))"

text \<open>Lines 183 to 205: the \<^verbatim>\<open>try\<close> body, then \<^verbatim>\<open>catch\<close>, then \<^verbatim>\<open>finally\<close>.\<close>

definition handleGenerateSpeech_resume :: "decoder \<Rightarrow> settled \<Rightarrow> world \<Rightarrow> world" where
  "handleGenerateSpeech_resume decode r w =
     (let w1 = (case generateSpeech_try decode r w of
                  Inl message \<Rightarrow>
                    w\<lparr>ui := (ui w)\<lparr>error := Some (utf16 ''An error occurred: '' @ message)\<rparr>\<rparr>
                | Inr w' \<Rightarrow> w')
      in w1\<lparr>ui := (ui w1)\<lparr>isLoading := False\<rparr>\<rparr>)"

text \<open>A whole run with no other event between the two turns.\<close>

definition handleGenerateSpeech :: "decoder \<Rightarrow> settled \<Rightarrow> world \<Rightarrow> world" where
  "handleGenerateSpeech decode r w =
     (case handleGenerateSpeech_start w of
        (w', None) \<Rightarrow> w'
      | (w', Some request) \<Rightarrow> handleGenerateSpeech_resume decode r w')"

section \<open>\<^verbatim>\<open>handlePreviewVoice\<close> (lines 75 to 106)\<close>

text \<open>Lines 76 to 89, up to the \<^verbatim>\<open>await\<close>.\<close>

definition handlePreviewVoice_start ::
  "jsstring \<Rightarrow> world \<Rightarrow> world \<times> generateContentParams option" where
  "handlePreviewVoice_start voiceId w =
     (let s = ui w in
      if truthyOpt (previewLoadingVoiceId s) then (w, None)
      else
        let s' = s\<lparr>previewLoadingVoiceId := Some voiceId, error := None\<rparr>;
            request = SpeechParams ttsModel PREVIEW_TEXT
                        \<lparr> voiceName = voiceId, rate = None, pitch' = None \<rparr>
        in (w\<lparr>ui := s', requests := requests w @ [request]\<rparr>, Some request))"

text \<open>The body of the \<^verbatim>\<open>try\<close> after the \<^verbatim>\<open>await\<close> (lines 91 to 99).\<close>

definition previewVoice_try :: "decoder \<Rightarrow> settled \<Rightarrow> world \<Rightarrow> jsstring + world" where
  "previewVoice_try decode r w =
     (case r of
        Rejected message \<Rightarrow> Inl message
      | Fulfilled response \<Rightarrow>
          (case base64AudioOf response of
             None \<Rightarrow> Inl (utf16 ''No audio data received for preview.'')
           | Some base64Audio \<Rightarrow>
               if \<not> truthy base64Audio then Inl (utf16 ''No audio data received for preview.'')
               else
                 (case decode base64Audio of
                    Inl message \<Rightarrow> Inl message
                  | Inr pcmData \<Rightarrow>
                      let wavBlob = pcmToWavBlob pcmData pcmFormat;
                          (url, w') = createObjectURL wavBlob w
                      in Inr (playAudio url w'))))"

text \<open>Lines 90 to 105: the \<^verbatim>\<open>try\<close> body, then \<^verbatim>\<open>catch\<close>, then \<^verbatim>\<open>finally\<close>.\<close>

definition handlePreviewVoice_resume :: "decoder \<Rightarrow> settled \<Rightarrow> world \<Rightarrow> world" where
  "handlePreviewVoice_resume decode r w =
     (let w1 = (case previewVoice_try decode r w of
                  Inl message \<Rightarrow>
                    w\<lparr>ui := (ui w)\<lparr>error := Some (utf16 ''Preview failed: '' @ message)\<rparr>\<rparr>
                | Inr w' \<Rightarrow> w')
      in w1\<lparr>ui := (ui w1)\<lparr>previewLoadingVoiceId := None\<rparr>\<rparr>)"

definition handlePreviewVoice :: "decoder \<Rightarrow> settled \<Rightarrow> jsstring \<Rightarrow> world \<Rightarrow> world" where
  "handlePreviewVoice decode r voiceId w =
     (case handlePreviewVoice_start voiceId w of
        (w', None) \<Rightarrow> w'
      | (w', Some request) \<Rightarrow> handlePreviewVoice_resume decode r w')"

section \<open>\<^verbatim>\<open>handleAnalyzeScript\<close> (lines 108 to 138)\<close>

text \<open>Lines 109 to 127, up to the \<^verbatim>\<open>await\<close>.\<close>

definition handleAnalyzeScript_start :: "world \<Rightarrow> world \<times> generateContentParams option" where
  "handleAnalyzeScript_start w =
     (let s = ui w in
      if \<not> truthy (trim (narratorScript s)) then
        (w\<lparr>ui := s\<lparr>error := Some (utf16 ''Please paste a script to analyze.'')\<rparr>\<rparr>, None)
      else
        let s' = s\<lparr>error := None, isAnalyzing := True\<rparr>;
            request = TextParams textModel (analysisPrompt (narratorScript s))
        in (w\<lparr>ui := s', requests := requests w @ [request]\<rparr>, Some request))"

text \<open>
  The body of the \<^verbatim>\<open>try\<close> after the \<^verbatim>\<open>await\<close> (lines 129 to 130). Reading \<^verbatim>\<open>.trim\<close> of an
  absent \<^verbatim>\<open>response.text\<close> throws a TypeError, whose message is the engine's (V8's here).
\<close>

definition analyzeScript_try :: "settled \<Rightarrow> world \<Rightarrow> jsstring + world" where
  "analyzeScript_try r w =
     (case r of
        Rejected message \<Rightarrow> Inl message
      | Fulfilled response \<Rightarrow>
          (case response_text response of
             None \<Rightarrow> Inl (utf16 ''Cannot read properties of undefined (reading 'trim')'')
           | Some t \<Rightarrow>
               let newStyle = trim t
               in Inr (w\<lparr>ui := (ui w)\<lparr>styleInstructions := newStyle\<rparr>\<rparr>)))"

text \<open>Lines 115 to 137: the \<^verbatim>\<open>try\<close> body, then \<^verbatim>\<open>catch\<close>, then \<^verbatim>\<open>finally\<close>.\<close>

definition handleAnalyzeScript_resume :: "settled \<Rightarrow> world \<Rightarrow> world" where
  "handleAnalyzeScript_resume r w =
     (let w1 = (case analyzeScript_try r w of
                  Inl message \<Rightarrow>
                    w\<lparr>ui := (ui w)\<lparr>error := Some (utf16 ''Analysis failed: '' @ message)\<rparr>\<rparr>
                | Inr w' \<Rightarrow> w')
      in w1\<lparr>ui := (ui w1)\<lparr>isAnalyzing := False\<rparr>\<rparr>)"

definition handleAnalyzeScript :: "settled \<Rightarrow> world \<Rightarrow> world" where
  "handleAnalyzeScript r w =
     (case handleAnalyzeScript_start w of
        (w', None) \<Rightarrow> w'
      | (w', Some request) \<Rightarrow> handleAnalyzeScript_resume r w')"

section \<open>The controls that call the handlers\<close>

text \<open>
  The generate button (lines 362 to 365) has \<^verbatim>\<open>onClick={handleGenerateSpeech}\<close> and
  \<^verbatim>\<open>disabled={isLoading}\<close>; the analyze button (lines 230 to 233) has
  \<^verbatim>\<open>onClick={handleAnalyzeScript}\<close> and \<^verbatim>\<open>disabled={isAnalyzing}\<close>; the preview button of a
  voice (lines 308 to 310) calls \<^verbatim>\<open>handlePreviewVoice(voice.id)\<close> and has
  \<^verbatim>\<open>disabled={previewLoadingVoiceId === voice.id}\<close>. A click on a disabled button calls
  no handler.
\<close>

definition clickGenerate :: "world \<Rightarrow> world \<times> generateContentParams option" where
  "clickGenerate w = (if isLoading (ui w) then (w, None) else handleGenerateSpeech_start w)"

definition clickAnalyze :: "world \<Rightarrow> world \<times> generateContentParams option" where
  "clickAnalyze w = (if isAnalyzing (ui w) then (w, None) else handleAnalyzeScript_start w)"

definition clickPreview :: "jsstring \<Rightarrow> world \<Rightarrow> world \<times> generateContentParams option" where
  "clickPreview voiceId w =
     (if previewLoadingVoiceId (ui w) = Some voiceId then (w, None)
      else handlePreviewVoice_start voiceId w)"

section \<open>The voice catalog and the initial state\<close>

text \<open>
  \<^verbatim>\<open>VOICES\<close> (lines 7 to 38), each entry an \<^verbatim>\<open>id\<close> and a \<^verbatim>\<open>name\<close>. The literal is written
  in ascending order of \<^verbatim>\<open>name\<close>, so the \<^verbatim>\<open>sort\<close> by \<^verbatim>\<open>localeCompare\<close> returns it as it is.
\<close>

definition VOICES :: "(jsstring \<times> jsstring) list" where
  "VOICES = map (\<lambda>(i, n). (utf16 i, utf16 n))
     [(''achernar'', ''Achernar''),
      (''achird'', ''Achird''),
      (''algenib'', ''Algenib''),
      (''algieba'', ''Algieba''),
      (''alnilam'', ''Alnilam''),
      (''aoede'', ''Aoede''),
      (''autonoe'', ''Autonoe''),
      (''callirrhoe'', ''Callirrhoe''),
      (''charon'', ''Charon''),
      (''despina'', ''Despina''),
      (''enceladus'', ''Enceladus''),
      (''erinome'', ''Erinome''),
      (''fenrir'', ''Fenrir''),
      (''gacrux'', ''Gacrux''),
      (''iapetus'', ''Iapetus''),
      (''kore'', ''Kore''),
      (''laomedeia'', ''Laomedeia''),
      (''leda'', ''Leda''),
      (''orus'', ''Orus''),
      (''puck'', ''Puck''),
      (''pulcherrima'', ''Pulcherrima''),
      (''rasalgethi'', ''Rasalgethi''),
      (''sadachbia'', ''Sadachbia''),
      (''sadaltager'', ''Sadaltager''),
      (''schedar'', ''Schedar''),
      (''sulafat'', ''Sulafat''),
      (''umbriel'', ''Umbriel''),
      (''vindemiatrix'', ''Vindemiatrix''),
      (''zephyr'', ''Zephyr''),
      (''zubenelgenubi'', ''Zubenelgenubi'')]"

text \<open>The initial values of the state cells (lines 44 to 55); \<^verbatim>\<open>VOICES[0].id\<close> is the first id.\<close>

definition initialState :: app_state where
  "initialState =
     \<lparr> narratorScript = [],
       isAnalyzing = False,
       text_field = utf16 ''Hello! I am a friendly AI assistant powered by Gemini. You can type any text here and I will read it aloud for you.'',
       styleInstructions = utf16 ''Read aloud in a warm, welcoming tone:'',
       selectedVoice = utf16 ''achernar'',
       speed = Finite 1,
       pitch = Finite 0,
       isLoading = False,
       audioUrl = None,
       error = None,
       isVoiceListOpen = False,
       previewLoadingVoiceId = None \<rparr>"

definition initialWorld :: world where
  "initialWorld =
     \<lparr> ui = initialState, requests = [], objectURLs = Map.empty, nextURL = 0, audios = [] \<rparr>"

section \<open>The event loop\<close>

text \<open>
  What can happen between two turns: an edit of a field (lines 225, 263, 275, 339, 354),
  the voice list being toggled (line 287), a mouse press outside the voice selector
  (lines 63 to 73), the choice of a voice (line 300), a click on one of the three buttons,
  an awaited call settling, and a preview's audio element ending.
\<close>

datatype event =
    ChangeNarratorScript jsstring
  | ChangeStyleInstructions jsstring
  | ChangeText jsstring
  | ToggleVoiceList
  | MouseDownOutside
  | SelectVoice jsstring
  | ChangeSpeed number
  | ChangePitch number
  | ClickAnalyze
  | ClickGenerate
  | ClickPreview jsstring
  | AnalyzeSettled settled
  | GenerateSettled settled
  | PreviewSettled settled
  | AudioEnded objectURL

text \<open>
  A session is the world together with the number of runs of each handler that are
  suspended at their \<^verbatim>\<open>await\<close>.
\<close>

record session =
  now :: world
  awaitingGenerate :: nat
  awaitingPreview :: nat
  awaitingAnalyze :: nat

definition initialSession :: session where
  "initialSession =
     \<lparr> now = initialWorld, awaitingGenerate = 0, awaitingPreview = 0, awaitingAnalyze = 0 \<rparr>"

text \<open>A setter call outside the handlers.\<close>

definition setCells :: "(app_state \<Rightarrow> app_state) \<Rightarrow> session \<Rightarrow> session" where
  "setCells f c = c\<lparr>now := (now c)\<lparr>ui := f (ui (now c))\<rparr>\<rparr>"

text \<open>A first turn that issued a request leaves one more run suspended.\<close>

definition dispatched :: "generateContentParams option \<Rightarrow> nat" where
  "dispatched q = (case q of None \<Rightarrow> 0 | Some request \<Rightarrow> 1)"

definition voiceIds :: "jsstring list" where
  "voiceIds = map fst VOICES"

text \<open>
  One turn of the event loop, \<open>None\<close> when the event cannot happen in the session: the rows
  of the voice list, with their preview buttons, are rendered only while the list is open
  (line 295) and only for the voices of the catalog; a call settles only for a run that
  awaits it; an audio element ends only if it was started. Each event is handled against
  the state the previous turn left, since the component is rendered again after every turn.
\<close>

fun fire :: "decoder \<Rightarrow> event \<Rightarrow> session \<Rightarrow> session option" where
  "fire decode (ChangeNarratorScript v) c = Some (setCells (\<lambda>s. s\<lparr>narratorScript := v\<rparr>) c)"
| "fire decode (ChangeStyleInstructions v) c = Some (setCells (\<lambda>s. s\<lparr>styleInstructions := v\<rparr>) c)"
| "fire decode (ChangeText v) c = Some (setCells (\<lambda>s. s\<lparr>text_field := v\<rparr>) c)"
| "fire decode ToggleVoiceList c =
     Some (setCells (\<lambda>s. s\<lparr>isVoiceListOpen := \<not> isVoiceListOpen s\<rparr>) c)"
| "fire decode MouseDownOutside c = Some (setCells (\<lambda>s. s\<lparr>isVoiceListOpen := False\<rparr>) c)"
| "fire decode (SelectVoice v) c =
     (if isVoiceListOpen (ui (now c)) \<and> v \<in> set voiceIds
      then Some (setCells (\<lambda>s. s\<lparr>selectedVoice := v, isVoiceListOpen := False\<rparr>) c)
      else None)"
| "fire decode (ChangeSpeed x) c = Some (setCells (\<lambda>s. s\<lparr>speed := x\<rparr>) c)"
| "fire decode (ChangePitch x) c = Some (setCells (\<lambda>s. s\<lparr>pitch := x\<rparr>) c)"
| "fire decode ClickAnalyze c =
     (case clickAnalyze (now c) of
        (w, q) \<Rightarrow> Some (c\<lparr>now := w, awaitingAnalyze := awaitingAnalyze c + dispatched q\<rparr>))"
| "fire decode ClickGenerate c =
     (case clickGenerate (now c) of
        (w, q) \<Rightarrow> Some (c\<lparr>now := w, awaitingGenerate := awaitingGenerate c + dispatched q\<rparr>))"
| "fire decode (ClickPreview v) c =
     (if isVoiceListOpen (ui (now c)) \<and> v \<in> set voiceIds
      then (case clickPreview v (now c) of
              (w, q) \<Rightarrow> Some (c\<lparr>now := w, awaitingPreview := awaitingPreview c + dispatched q\<rparr>))
      else None)"
| "fire decode (AnalyzeSettled r) c =
     (if awaitingAnalyze c = 0 then None
      else Some (c\<lparr>now := handleAnalyzeScript_resume r (now c),
                   awaitingAnalyze := awaitingAnalyze c - 1\<rparr>))"
| "fire decode (GenerateSettled r) c =
     (if awaitingGenerate c = 0 then None
      else Some (c\<lparr>now := handleGenerateSpeech_resume decode r (now c),
                   awaitingGenerate := awaitingGenerate c - 1\<rparr>))"
| "fire decode (PreviewSettled r) c =
     (if awaitingPreview c = 0 then None
      else Some (c\<lparr>now := handlePreviewVoice_resume decode r (now c),
                   awaitingPreview := awaitingPreview c - 1\<rparr>))"
| "fire decode (AudioEnded url) c =
     (if url \<in> set (audios (now c)) then Some (c\<lparr>now := audioEnded url (now c)\<rparr>) else None)"

text \<open>The sessions that the events can produce from the initial one.\<close>

inductive reachable :: "decoder \<Rightarrow> session \<Rightarrow> bool" for decode :: decoder where
  initial: "reachable decode initialSession"
| step: "reachable decode c \<Longrightarrow> fire decode e c = Some c' \<Longrightarrow> reachable decode c'"

text \<open>
  The invariant behind the busy flags: each flag is set exactly while one run of its
  handler is suspended, there is never a second one, and no result is displayed while
  generate is busy.
\<close>

definition exclusive :: "session \<Rightarrow> bool" where
  "exclusive c \<longleftrightarrow>
     awaitingGenerate c = (if isLoading (ui (now c)) then 1 else 0)
     \<and> awaitingPreview c = (if truthyOpt (previewLoadingVoiceId (ui (now c))) then 1 else 0)
     \<and> awaitingAnalyze c = (if isAnalyzing (ui (now c)) then 1 else 0)
     \<and> (if isLoading (ui (now c)) then audioUrl (ui (now c)) = None else True)"

section \<open>Outcomes of the second turn\<close>

text \<open>
  The ways the second turn of \<^verbatim>\<open>handleGenerateSpeech\<close> ends in \<^verbatim>\<open>catch\<close>: the remote call
  is rejected, the response holds no (or an empty) payload, or \<^verbatim>\<open>decode\<close> throws.
\<close>

definition generateFails :: "decoder \<Rightarrow> settled \<Rightarrow> bool" where
  "generateFails decode r =
     (case r of
        Rejected message \<Rightarrow> True
      | Fulfilled response \<Rightarrow>
          (case base64AudioOf response of
             None \<Rightarrow> True
           | Some base64Audio \<Rightarrow> \<not> truthy base64Audio \<or> isl (decode base64Audio)))"

text \<open>A response that carries \<open>payload\<close> as the inline data of its first part.\<close>

definition audioResponse :: "jsstring \<Rightarrow> generateContentResponse" where
  "audioResponse payload =
     \<lparr> candidates = Some [Candidate (Some (Content (Some [Part (Some (InlineBlob (Some payload)))])))],
       response_text = None \<rparr>"

section \<open>Concrete worlds used in the examples\<close>

text \<open>The world while the first generate of a fresh session awaits its response.\<close>

definition busyWorld :: world where
  "busyWorld = fst (handleGenerateSpeech_start initialWorld)"

text \<open>A stand-in for \<^verbatim>\<open>decode\<close> that succeeds with four bytes of samples.\<close>

definition sampleDecoder :: decoder where
  "sampleDecoder base64 = Inr [0, 0, 0, 0]"

text \<open>The world after one successful generate of a fresh session: a result is displayed.\<close>

definition shownWorld :: world where
  "shownWorld =
     handleGenerateSpeech sampleDecoder (Fulfilled (audioResponse (utf16 ''AAAAAA==''))) initialWorld"

text \<open>The session after a click on generate in the initial one.\<close>

definition busySession :: session where
  "busySession =
     \<lparr> now = busyWorld, awaitingGenerate = 1, awaitingPreview = 0, awaitingAnalyze = 0 \<rparr>"

section \<open>Facts about the container's layout\<close>

lemma le_u32_arith:
  fixes n :: nat
  assumes "n < 2 ^ 32"
  shows "n mod 256 + 256 * (n div 256 mod 256 + 256 * (n div 65536 mod 256 + 256 * (n div 16777216 mod 256))) = n"
proof -
  have a: "n div 16777216 mod 256 = n div 16777216"
    using assms by (simp add: less_mult_imp_div_less)
  have e: "n div 65536 div 256 = n div 16777216"
    using div_mult2_eq [of n 65536 256] by simp
  have f: "n div 256 div 256 = n div 65536"
    using div_mult2_eq [of n 256 256] by simp
  have b: "n div 65536 mod 256 + 256 * (n div 16777216) = n div 65536"
    using mod_mult_div_eq [of "n div 65536" 256] by (simp only: e)
  have c: "n div 256 mod 256 + 256 * (n div 65536) = n div 256"
    using mod_mult_div_eq [of "n div 256" 256] by (simp only: f)
  have d: "n mod 256 + 256 * (n div 256) = n"
    by simp
  show ?thesis by (simp only: a b c d)
qed

lemma le_at_u32le: "n < 2 ^ 32 \<Longrightarrow> le_at 4 0 (u32le n @ rest) = n"
  using le_u32_arith [of n] by (simp add: le_at_def u32le_def unat_of_nat)

lemma le_at_u16le: "n < 2 ^ 16 \<Longrightarrow> le_at 2 0 (u16le n @ rest) = n"
  by (simp add: le_at_def u16le_def unat_of_nat)

lemma le_at_skip: "length pre = i \<Longrightarrow> le_at k i (pre @ bs) = le_at k 0 bs"
  by (simp add: le_at_def)

lemma length_u32le: "length (u32le n) = 4" by (simp add: u32le_def)
lemma length_u16le: "length (u16le n) = 2" by (simp add: u16le_def)
lemma length_ascii: "length (ascii s) = length s" by (simp add: ascii_def)

lemma length_headerBytes: "length (headerBytes h) = 44"
  by (simp add: headerBytes_def length_u32le length_u16le length_ascii)

lemma readHeader_headerBytes:
  assumes "fitsHeader h"
  shows "readHeader (headerBytes h @ rest) = h"
proof -
  let ?bs = "headerBytes h @ rest"
  let ?p4 = "ascii ''RIFF''"
  let ?p16 = "?p4 @ u32le (riffChunkSize h) @ ascii ''WAVE'' @ ascii ''fmt ''"
  let ?p20 = "?p16 @ u32le (fmtChunkSize h)"
  let ?p22 = "?p20 @ u16le (audioFormat h)"
  let ?p24 = "?p22 @ u16le (channels h)"
  let ?p28 = "?p24 @ u32le (samplesPerSec h)"
  let ?p32 = "?p28 @ u32le (byteRate h)"
  let ?p34 = "?p32 @ u16le (blockAlign h)"
  let ?p40 = "?p34 @ u16le (bitsPerSample_h h) @ ascii ''data''"
  note lens = length_u32le length_u16le length_ascii
  from assms have fits: "riffChunkSize h < 2 ^ 32" "fmtChunkSize h < 2 ^ 32"
    "audioFormat h < 2 ^ 16" "channels h < 2 ^ 16" "samplesPerSec h < 2 ^ 32"
    "byteRate h < 2 ^ 32" "blockAlign h < 2 ^ 16" "bitsPerSample_h h < 2 ^ 16"
    "dataChunkSize h < 2 ^ 32"
    by (simp_all add: fitsHeader_def)
  have 1: "le_at 4 4 ?bs = riffChunkSize h"
    using le_at_skip [of ?p4 4 4] fits(1)
    by (simp add: headerBytes_def lens le_at_u32le)
  have 2: "le_at 4 16 ?bs = fmtChunkSize h"
    using le_at_skip [of ?p16 16 4] fits(2)
    by (simp add: headerBytes_def lens le_at_u32le)
  have 3: "le_at 2 20 ?bs = audioFormat h"
    using le_at_skip [of ?p20 20 2] fits(3)
    by (simp add: headerBytes_def lens le_at_u16le)
  have 4: "le_at 2 22 ?bs = channels h"
    using le_at_skip [of ?p22 22 2] fits(4)
    by (simp add: headerBytes_def lens le_at_u16le)
  have 5: "le_at 4 24 ?bs = samplesPerSec h"
    using le_at_skip [of ?p24 24 4] fits(5)
    by (simp add: headerBytes_def lens le_at_u32le)
  have 6: "le_at 4 28 ?bs = byteRate h"
    using le_at_skip [of ?p28 28 4] fits(6)
    by (simp add: headerBytes_def lens le_at_u32le)
  have 7: "le_at 2 32 ?bs = blockAlign h"
    using le_at_skip [of ?p32 32 2] fits(7)
    by (simp add: headerBytes_def lens le_at_u16le)
  have 8: "le_at 2 34 ?bs = bitsPerSample_h h"
    using le_at_skip [of ?p34 34 2] fits(8)
    by (simp add: headerBytes_def lens le_at_u16le)
  have 9: "le_at 4 40 ?bs = dataChunkSize h"
    using le_at_skip [of ?p40 40 4] fits(9) le_at_u32le [of "dataChunkSize h" rest]
    by (simp add: headerBytes_def lens)
  show ?thesis
    by (simp add: readHeader_def 1 2 3 4 5 6 7 8 9)
qed

lemma fitsHeader_wavHeader:
  "fitsHeader (wavHeader n f) \<longleftrightarrow>
     n + 36 < 2 ^ 32 \<and> numChannels f < 2 ^ 16 \<and> sampleRate f < 2 ^ 32 \<and>
     sampleRate f * numChannels f * bitsPerSample f div 8 < 2 ^ 32 \<and>
     numChannels f * bitsPerSample f div 8 < 2 ^ 16 \<and> bitsPerSample f < 2 ^ 16"
  by (auto simp add: fitsHeader_def wavHeader_def)

section \<open>The container's header\<close>

text \<open>
  Claim C1. For every samples buffer \<open>S\<close> of \<open>N\<close> bytes and every format \<open>F\<close>, the
  container built from them is \<open>44 + N\<close> bytes long and ends with the samples; the size
  fields of its header are \<open>N\<close> and \<open>N + 36\<close>, its byteRate is
  \<open>sampleRate * numChannels * bitsPerSample div 8\<close> and its blockAlign is
  \<open>numChannels * bitsPerSample div 8\<close>. Whenever these values fit the 4-byte and 2-byte
  slots of the header, reading the slots of the output back gives exactly them.
\<close>

theorem pcmToWavBlob_header:
  "length (pcmToWavBlob S F) = 44 + length S
   \<and> drop 44 (pcmToWavBlob S F) = S
   \<and> dataChunkSize (wavHeader (length S) F) = length S
   \<and> riffChunkSize (wavHeader (length S) F) = length S + 36
   \<and> byteRate (wavHeader (length S) F) = sampleRate F * numChannels F * bitsPerSample F div 8
   \<and> blockAlign (wavHeader (length S) F) = numChannels F * bitsPerSample F div 8
   \<and> (fitsHeader (wavHeader (length S) F) \<longrightarrow>
        readHeader (pcmToWavBlob S F) = wavHeader (length S) F)"
  by (simp add: pcmToWavBlob_def length_headerBytes readHeader_headerBytes)
     (simp add: wavHeader_def)

text \<open>
  The theorem at the format of both call sites and four bytes of samples: the header
  reads 40 and 4 in its size fields, 48000 as byteRate and 2 as blockAlign.
\<close>

theorem pcmToWavBlob_header_witness:
  "fitsHeader (wavHeader (length [1, 2, 3, 4 :: byte]) pcmFormat)
   \<and> length (pcmToWavBlob [1, 2, 3, 4] pcmFormat) = 48
   \<and> readHeader (pcmToWavBlob [1, 2, 3, 4] pcmFormat) =
       \<lparr> riffChunkSize = 40, fmtChunkSize = 16, audioFormat = 1, channels = 1,
         samplesPerSec = 24000, byteRate = 48000, blockAlign = 2, bitsPerSample_h = 16,
         dataChunkSize = 4 \<rparr>"
  using pcmToWavBlob_header [of "[1, 2, 3, 4]" pcmFormat]
  by (simp add: fitsHeader_def wavHeader_def pcmFormat_def)

section \<open>Facts about the handlers\<close>

lemma trim_eq_Nil_iff: "trim s = [] \<longleftrightarrow> (\<forall>c \<in> set s. isWhiteSpace c)"
proof
  assume "trim s = []"
  then have "dropWhile isWhiteSpace (rev (dropWhile isWhiteSpace s)) = []"
    by (simp add: trim_def)
  then have "\<forall>c \<in> set (rev (dropWhile isWhiteSpace s)). isWhiteSpace c"
    by (simp add: dropWhile_eq_Nil_conv)
  then have "dropWhile isWhiteSpace s = []"
    by (metis dropWhile_eq_Nil_conv hd_dropWhile list.set_sel(1) set_rev)
  then show "\<forall>c \<in> set s. isWhiteSpace c"
    by (simp add: dropWhile_eq_Nil_conv)
next
  assume "\<forall>c \<in> set s. isWhiteSpace c"
  then have d: "dropWhile isWhiteSpace s = []" by (simp add: dropWhile_eq_Nil_conv)
  show "trim s = []" unfolding trim_def d by simp
qed

lemma rate_buildSpeechConfig:
  "rate (buildSpeechConfig v s p) = (if s = Finite 1 then None else Some s)"
  by (auto simp add: buildSpeechConfig_def strictNotEq_def Let_def)

lemma pitch_buildSpeechConfig:
  "pitch' (buildSpeechConfig v s p) = (if p = Finite 0 then None else Some p)"
  by (auto simp add: buildSpeechConfig_def strictNotEq_def Let_def)

lemma handleGenerateSpeech_start_empty:
  "\<not> truthy (trim (text_field (ui w))) \<Longrightarrow>
   handleGenerateSpeech_start w =
     (w\<lparr>ui := (ui w)\<lparr>error := Some (utf16 ''Please enter some text to generate speech.'')\<rparr>\<rparr>,
      None)"
  by (simp add: handleGenerateSpeech_start_def Let_def)

lemma handleGenerateSpeech_start_valid:
  "truthy (trim (text_field (ui w))) \<Longrightarrow>
   handleGenerateSpeech_start w =
     (w\<lparr>ui := (ui w)\<lparr>error := None, audioUrl := None, isLoading := True\<rparr>,
        requests := requests w @
          [SpeechParams ttsModel
             (fullPrompt (styleInstructions (ui w)) (trim (text_field (ui w))))
             (buildSpeechConfig (selectedVoice (ui w)) (speed (ui w)) (pitch (ui w)))]\<rparr>,
      Some (SpeechParams ttsModel
             (fullPrompt (styleInstructions (ui w)) (trim (text_field (ui w))))
             (buildSpeechConfig (selectedVoice (ui w)) (speed (ui w)) (pitch (ui w)))))"
  by (simp add: handleGenerateSpeech_start_def Let_def)

lemma handleGenerateSpeech_valid:
  "truthy (trim (text_field (ui w))) \<Longrightarrow>
   handleGenerateSpeech decode r w =
     handleGenerateSpeech_resume decode r (fst (handleGenerateSpeech_start w))"
  by (simp add: handleGenerateSpeech_def handleGenerateSpeech_start_valid)

lemma generateSpeech_try_fails:
  "generateFails decode r \<Longrightarrow> \<exists>m. generateSpeech_try decode r w = Inl m"
  by (auto simp add: generateFails_def generateSpeech_try_def isl_def
      split: settled.splits option.splits sum.splits)

lemma generateSpeech_try_succeeds:
  "\<not> generateFails decode r \<Longrightarrow>
   \<exists>pcmData. generateSpeech_try decode r w =
     Inr (w\<lparr>objectURLs := (objectURLs w)(BlobURL (nextURL w) \<mapsto> pcmToWavBlob pcmData pcmFormat),
            nextURL := Suc (nextURL w),
            ui := (ui w)\<lparr>audioUrl := Some (BlobURL (nextURL w))\<rparr>\<rparr>)"
  by (auto simp add: generateFails_def generateSpeech_try_def createObjectURL_def isl_def Let_def
      split: settled.splits option.splits sum.splits)

lemma handleGenerateSpeech_resume_fails:
  "generateFails decode r \<Longrightarrow>
   \<exists>m. handleGenerateSpeech_resume decode r w =
     w\<lparr>ui := (ui w)\<lparr>error := Some (utf16 ''An error occurred: '' @ m), isLoading := False\<rparr>\<rparr>"
  using generateSpeech_try_fails [of decode r w]
  by (auto simp add: handleGenerateSpeech_resume_def Let_def)

lemma handleGenerateSpeech_keeps_urls:
  "u \<noteq> BlobURL (nextURL w) \<Longrightarrow>
   objectURLs (handleGenerateSpeech decode r w) u = objectURLs w u"
  by (auto simp add: handleGenerateSpeech_def handleGenerateSpeech_start_def
      handleGenerateSpeech_resume_def generateSpeech_try_def createObjectURL_def Let_def
      split: settled.splits option.splits sum.splits)

lemma handleGenerateSpeech_success:
  assumes "truthy (trim (text_field (ui w)))" "\<not> generateFails decode r"
  shows "audioUrl (ui (handleGenerateSpeech decode r w)) = Some (BlobURL (nextURL w))
         \<and> objectURLs (handleGenerateSpeech decode r w) (BlobURL (nextURL w)) \<noteq> None
         \<and> isLoading (ui (handleGenerateSpeech decode r w)) = False"
proof -
  let ?w1 = "fst (handleGenerateSpeech_start w)"
  have n: "nextURL ?w1 = nextURL w"
    by (simp add: handleGenerateSpeech_start_valid [OF assms(1)])
  from generateSpeech_try_succeeds [OF assms(2), of ?w1] obtain pcmData where
    "generateSpeech_try decode r ?w1 =
       Inr (?w1\<lparr>objectURLs := (objectURLs ?w1)(BlobURL (nextURL ?w1) \<mapsto> pcmToWavBlob pcmData pcmFormat),
              nextURL := Suc (nextURL ?w1),
              ui := (ui ?w1)\<lparr>audioUrl := Some (BlobURL (nextURL ?w1))\<rparr>\<rparr>)"
    by blast
  then show ?thesis
    unfolding handleGenerateSpeech_valid [OF assms(1)]
    by (simp add: handleGenerateSpeech_resume_def n)
qed

lemma handlePreviewVoice_start_idle:
  "\<not> truthyOpt (previewLoadingVoiceId (ui w)) \<Longrightarrow>
   handlePreviewVoice_start voiceId w =
     (w\<lparr>ui := (ui w)\<lparr>previewLoadingVoiceId := Some voiceId, error := None\<rparr>,
        requests := requests w @
          [SpeechParams ttsModel PREVIEW_TEXT \<lparr>voiceName = voiceId, rate = None, pitch' = None\<rparr>]\<rparr>,
      Some (SpeechParams ttsModel PREVIEW_TEXT \<lparr>voiceName = voiceId, rate = None, pitch' = None\<rparr>))"
  by (simp add: handlePreviewVoice_start_def Let_def)

lemma handlePreviewVoice_resume_rejected:
  "handlePreviewVoice_resume decode (Rejected message) w =
     w\<lparr>ui := (ui w)\<lparr>error := Some (utf16 ''Preview failed: '' @ message),
                     previewLoadingVoiceId := None\<rparr>\<rparr>"
  by (simp add: handlePreviewVoice_resume_def previewVoice_try_def)

lemma handleAnalyzeScript_start_empty:
  "\<not> truthy (trim (narratorScript (ui w))) \<Longrightarrow>
   handleAnalyzeScript_start w =
     (w\<lparr>ui := (ui w)\<lparr>error := Some (utf16 ''Please paste a script to analyze.'')\<rparr>\<rparr>, None)"
  by (simp add: handleAnalyzeScript_start_def Let_def)

lemma handleAnalyzeScript_start_valid:
  "truthy (trim (narratorScript (ui w))) \<Longrightarrow>
   handleAnalyzeScript_start w =
     (w\<lparr>ui := (ui w)\<lparr>error := None, isAnalyzing := True\<rparr>,
        requests := requests w @ [TextParams textModel (analysisPrompt (narratorScript (ui w)))]\<rparr>,
      Some (TextParams textModel (analysisPrompt (narratorScript (ui w)))))"
  by (simp add: handleAnalyzeScript_start_def Let_def)

lemma truthy_initial_text: "truthy (trim (text_field initialState))"
  by (simp add: trim_def initialState_def utf16_def isWhiteSpace_def truthy_def)

lemma ui_initialWorld: "ui initialWorld = initialState"
  by (simp add: initialWorld_def)

lemma busyWorld_eq:
  "busyWorld = initialWorld\<lparr>ui := initialState\<lparr>error := None, audioUrl := None, isLoading := True\<rparr>,
     requests := [SpeechParams ttsModel
             (fullPrompt (styleInstructions initialState) (trim (text_field initialState)))
             (buildSpeechConfig (selectedVoice initialState) (speed initialState) (pitch initialState))]\<rparr>"
  using truthy_initial_text
  by (simp add: busyWorld_def handleGenerateSpeech_start_valid ui_initialWorld)
     (simp add: initialWorld_def)

lemma shownWorld_eq:
  "shownWorld = initialWorld
     \<lparr>ui := initialState\<lparr>audioUrl := Some (BlobURL 0)\<rparr>,
      requests := [SpeechParams ttsModel
             (fullPrompt (styleInstructions initialState) (trim (text_field initialState)))
             (buildSpeechConfig (selectedVoice initialState) (speed initialState) (pitch initialState))],
      objectURLs := [BlobURL 0 \<mapsto> pcmToWavBlob [0, 0, 0, 0] pcmFormat],
      nextURL := 1\<rparr>"
  using truthy_initial_text
  apply (simp add: shownWorld_def handleGenerateSpeech_valid ui_initialWorld
      handleGenerateSpeech_start_valid)
  apply (simp add: handleGenerateSpeech_resume_def generateSpeech_try_def audioResponse_def
      base64AudioOf_def first_def truthy_def utf16_def sampleDecoder_def createObjectURL_def Let_def)
  apply (simp add: initialWorld_def initialState_def)
  done

lemma handlePreviewVoice_start_frame:
  "(ui (fst (handlePreviewVoice_start voiceId w)))\<lparr>previewLoadingVoiceId := None, error := None\<rparr> =
     (ui w)\<lparr>previewLoadingVoiceId := None, error := None\<rparr>"
  by (simp add: handlePreviewVoice_start_def Let_def)

lemma handlePreviewVoice_resume_frame:
  "(ui (handlePreviewVoice_resume decode r w))\<lparr>previewLoadingVoiceId := None, error := None\<rparr> =
     (ui w)\<lparr>previewLoadingVoiceId := None, error := None\<rparr>"
  by (simp add: handlePreviewVoice_resume_def previewVoice_try_def createObjectURL_def
      playAudio_def Let_def split: settled.splits option.splits sum.splits)

lemma handlePreviewVoice_frame:
  "(ui (handlePreviewVoice decode r voiceId w))\<lparr>previewLoadingVoiceId := None, error := None\<rparr> =
     (ui w)\<lparr>previewLoadingVoiceId := None, error := None\<rparr>"
proof (cases "snd (handlePreviewVoice_start voiceId w)")
  case None
  then have "handlePreviewVoice decode r voiceId w = fst (handlePreviewVoice_start voiceId w)"
    by (auto simp add: handlePreviewVoice_def split: prod.splits)
  then show ?thesis by (simp only: handlePreviewVoice_start_frame)
next
  case (Some request)
  then have "handlePreviewVoice decode r voiceId w =
      handlePreviewVoice_resume decode r (fst (handlePreviewVoice_start voiceId w))"
    by (auto simp add: handlePreviewVoice_def split: prod.splits)
  then show ?thesis
    by (simp only: handlePreviewVoice_resume_frame handlePreviewVoice_start_frame)
qed

lemma handleAnalyzeScript_start_frame:
  "(ui (fst (handleAnalyzeScript_start w)))\<lparr>isAnalyzing := False, error := None\<rparr> =
     (ui w)\<lparr>isAnalyzing := False, error := None\<rparr>"
  by (simp add: handleAnalyzeScript_start_def Let_def)

lemma handleAnalyzeScript_resume_frame:
  "(ui (handleAnalyzeScript_resume r w))\<lparr>isAnalyzing := False, error := None\<rparr> =
     (ui w)\<lparr>isAnalyzing := False, error := None,
        styleInstructions :=
          (case r of
             Fulfilled response \<Rightarrow>
               (case response_text response of
                  Some t \<Rightarrow> trim t
                | None \<Rightarrow> styleInstructions (ui w))
           | Rejected message \<Rightarrow> styleInstructions (ui w))\<rparr>"
  by (simp add: handleAnalyzeScript_resume_def analyzeScript_try_def Let_def
      split: settled.splits option.splits)

lemma handleAnalyzeScript_frame:
  "(ui (handleAnalyzeScript r w))\<lparr>isAnalyzing := False, error := None\<rparr> =
     (ui w)\<lparr>isAnalyzing := False, error := None,
        styleInstructions :=
          (if truthy (trim (narratorScript (ui w))) then
             (case r of
                Fulfilled response \<Rightarrow>
                  (case response_text response of
                     Some t \<Rightarrow> trim t
                   | None \<Rightarrow> styleInstructions (ui w))
              | Rejected message \<Rightarrow> styleInstructions (ui w))
           else styleInstructions (ui w))\<rparr>"
proof (cases "truthy (trim (narratorScript (ui w)))")
  case True
  let ?w1 = "w\<lparr>ui := (ui w)\<lparr>error := None, isAnalyzing := True\<rparr>,
        requests := requests w @ [TextParams textModel (analysisPrompt (narratorScript (ui w)))]\<rparr>"
  have eq: "handleAnalyzeScript r w = handleAnalyzeScript_resume r ?w1"
    by (simp add: handleAnalyzeScript_def handleAnalyzeScript_start_valid [OF True])
  show ?thesis
    unfolding eq handleAnalyzeScript_resume_frame using True
    by (simp split: settled.splits option.splits)
next
  case False
  then show ?thesis
    by (simp add: handleAnalyzeScript_def handleAnalyzeScript_start_empty)
qed

lemma preview_cells:
  assumes "s'\<lparr>previewLoadingVoiceId := None, error := None\<rparr> =
           s\<lparr>previewLoadingVoiceId := None, error := None\<rparr>"
  shows "audioUrl s' = audioUrl s \<and> text_field s' = text_field s
         \<and> selectedVoice s' = selectedVoice s \<and> speed s' = speed s \<and> pitch s' = pitch s
         \<and> styleInstructions s' = styleInstructions s"
proof -
  let ?f = "\<lambda>x. x\<lparr>previewLoadingVoiceId := None, error := None\<rparr>"
  have "audioUrl (?f s') = audioUrl (?f s)" "text_field (?f s') = text_field (?f s)"
    "selectedVoice (?f s') = selectedVoice (?f s)" "speed (?f s') = speed (?f s)"
    "pitch (?f s') = pitch (?f s)" "styleInstructions (?f s') = styleInstructions (?f s)"
    using assms by simp_all
  then show ?thesis by simp
qed

lemma analyze_cells:
  assumes "s'\<lparr>isAnalyzing := False, error := None\<rparr> =
           s\<lparr>isAnalyzing := False, error := None, styleInstructions := x\<rparr>"
  shows "audioUrl s' = audioUrl s \<and> text_field s' = text_field s
         \<and> selectedVoice s' = selectedVoice s \<and> speed s' = speed s \<and> pitch s' = pitch s
         \<and> styleInstructions s' = x"
proof -
  let ?f = "\<lambda>y. y\<lparr>isAnalyzing := False, error := None\<rparr>"
  let ?g = "s\<lparr>isAnalyzing := False, error := None, styleInstructions := x\<rparr>"
  have "audioUrl (?f s') = audioUrl ?g" "text_field (?f s') = text_field ?g"
    "selectedVoice (?f s') = selectedVoice ?g" "speed (?f s') = speed ?g"
    "pitch (?f s') = pitch ?g" "styleInstructions (?f s') = styleInstructions ?g"
    using assms by simp_all
  then show ?thesis by simp
qed

section \<open>Facts about the event loop\<close>

lemma voiceIds_truthy: "v \<in> set voiceIds \<Longrightarrow> truthy v"
  by (auto simp add: voiceIds_def VOICES_def utf16_def truthy_def)

lemma exclusive_initial: "exclusive initialSession"
  by (simp add: exclusive_def initialSession_def initialWorld_def initialState_def truthyOpt_def)

lemma generate_resume_cells:
  "isLoading (ui (handleGenerateSpeech_resume decode r w)) = False
   \<and> isAnalyzing (ui (handleGenerateSpeech_resume decode r w)) = isAnalyzing (ui w)
   \<and> previewLoadingVoiceId (ui (handleGenerateSpeech_resume decode r w)) =
       previewLoadingVoiceId (ui w)"
  by (simp add: handleGenerateSpeech_resume_def generateSpeech_try_def createObjectURL_def
      Let_def split: settled.splits option.splits sum.splits)

lemma preview_resume_cells:
  "previewLoadingVoiceId (ui (handlePreviewVoice_resume decode r w)) = None
   \<and> isLoading (ui (handlePreviewVoice_resume decode r w)) = isLoading (ui w)
   \<and> isAnalyzing (ui (handlePreviewVoice_resume decode r w)) = isAnalyzing (ui w)
   \<and> audioUrl (ui (handlePreviewVoice_resume decode r w)) = audioUrl (ui w)"
  by (simp add: handlePreviewVoice_resume_def previewVoice_try_def createObjectURL_def
      playAudio_def Let_def split: settled.splits option.splits sum.splits)

lemma analyze_resume_cells:
  "isAnalyzing (ui (handleAnalyzeScript_resume r w)) = False
   \<and> isLoading (ui (handleAnalyzeScript_resume r w)) = isLoading (ui w)
   \<and> previewLoadingVoiceId (ui (handleAnalyzeScript_resume r w)) =
       previewLoadingVoiceId (ui w)
   \<and> audioUrl (ui (handleAnalyzeScript_resume r w)) = audioUrl (ui w)"
  by (simp add: handleAnalyzeScript_resume_def analyzeScript_try_def
      Let_def split: settled.splits option.splits)

lemma ui_audioEnded: "ui (audioEnded url w) = ui w"
  by (simp add: audioEnded_def revokeObjectURL_def)

lemma generate_start_cells:
  "isAnalyzing (ui (fst (handleGenerateSpeech_start w))) = isAnalyzing (ui w)
   \<and> previewLoadingVoiceId (ui (fst (handleGenerateSpeech_start w))) = previewLoadingVoiceId (ui w)
   \<and> (case snd (handleGenerateSpeech_start w) of
        None \<Rightarrow> isLoading (ui (fst (handleGenerateSpeech_start w))) = isLoading (ui w)
                 \<and> audioUrl (ui (fst (handleGenerateSpeech_start w))) = audioUrl (ui w)
      | Some request \<Rightarrow> isLoading (ui (fst (handleGenerateSpeech_start w)))
                 \<and> audioUrl (ui (fst (handleGenerateSpeech_start w))) = None)"
  by (simp add: handleGenerateSpeech_start_def Let_def)

lemma preview_start_cells:
  "isAnalyzing (ui (fst (handlePreviewVoice_start v w))) = isAnalyzing (ui w)
   \<and> isLoading (ui (fst (handlePreviewVoice_start v w))) = isLoading (ui w)
   \<and> audioUrl (ui (fst (handlePreviewVoice_start v w))) = audioUrl (ui w)
   \<and> (case snd (handlePreviewVoice_start v w) of
        None \<Rightarrow> previewLoadingVoiceId (ui (fst (handlePreviewVoice_start v w))) =
                   previewLoadingVoiceId (ui w)
                 \<and> truthyOpt (previewLoadingVoiceId (ui w))
      | Some request \<Rightarrow> previewLoadingVoiceId (ui (fst (handlePreviewVoice_start v w))) = Some v
                 \<and> \<not> truthyOpt (previewLoadingVoiceId (ui w)))"
  by (simp add: handlePreviewVoice_start_def Let_def)

lemma analyze_start_cells:
  "isLoading (ui (fst (handleAnalyzeScript_start w))) = isLoading (ui w)
   \<and> previewLoadingVoiceId (ui (fst (handleAnalyzeScript_start w))) = previewLoadingVoiceId (ui w)
   \<and> audioUrl (ui (fst (handleAnalyzeScript_start w))) = audioUrl (ui w)
   \<and> (case snd (handleAnalyzeScript_start w) of
        None \<Rightarrow> isAnalyzing (ui (fst (handleAnalyzeScript_start w))) = isAnalyzing (ui w)
      | Some request \<Rightarrow> isAnalyzing (ui (fst (handleAnalyzeScript_start w))))"
  by (simp add: handleAnalyzeScript_start_def Let_def)

lemma exclusive_ClickGenerate:
  assumes "exclusive c" "fire decode ClickGenerate c = Some c'"
  shows "exclusive c'"
proof (cases "isLoading (ui (now c))")
  case True
  with assms show ?thesis by (simp add: clickGenerate_def dispatched_def)
next
  case False
  obtain w q where s: "handleGenerateSpeech_start (now c) = (w, q)"
    by (cases "handleGenerateSpeech_start (now c)")
  with assms False have c': "c' = c\<lparr>now := w, awaitingGenerate := awaitingGenerate c + dispatched q\<rparr>"
    by (simp add: clickGenerate_def)
  from generate_start_cells [of "now c"] s assms(1) False show ?thesis
    unfolding c' by (cases q) (simp_all add: exclusive_def dispatched_def)
qed

lemma exclusive_ClickAnalyze:
  assumes "exclusive c" "fire decode ClickAnalyze c = Some c'"
  shows "exclusive c'"
proof (cases "isAnalyzing (ui (now c))")
  case True
  with assms show ?thesis by (simp add: clickAnalyze_def dispatched_def)
next
  case False
  obtain w q where s: "handleAnalyzeScript_start (now c) = (w, q)"
    by (cases "handleAnalyzeScript_start (now c)")
  with assms False have c': "c' = c\<lparr>now := w, awaitingAnalyze := awaitingAnalyze c + dispatched q\<rparr>"
    by (simp add: clickAnalyze_def)
  from analyze_start_cells [of "now c"] s assms(1) False show ?thesis
    unfolding c' by (cases q) (simp_all add: exclusive_def dispatched_def)
qed

lemma exclusive_ClickPreview:
  assumes "exclusive c" "fire decode (ClickPreview v) c = Some c'"
  shows "exclusive c'"
proof -
  from assms(2) have v: "v \<in> set voiceIds"
    by (simp split: if_splits)
  show ?thesis
  proof (cases "previewLoadingVoiceId (ui (now c)) = Some v")
    case True
    with assms show ?thesis by (simp add: clickPreview_def dispatched_def split: if_splits)
  next
    case False
    obtain w q where s: "handlePreviewVoice_start v (now c) = (w, q)"
      by (cases "handlePreviewVoice_start v (now c)")
    with assms False have c': "c' = c\<lparr>now := w, awaitingPreview := awaitingPreview c + dispatched q\<rparr>"
      by (simp add: clickPreview_def split: if_splits)
    from preview_start_cells [of v "now c"] s assms(1) voiceIds_truthy [OF v] show ?thesis
      unfolding c' by (cases q) (simp_all add: exclusive_def dispatched_def truthyOpt_def)
  qed
qed

lemma exclusive_GenerateSettled:
  assumes "exclusive c" "fire decode (GenerateSettled r) c = Some c'"
  shows "exclusive c'"
proof -
  from assms(2) have c': "c' = c\<lparr>now := handleGenerateSpeech_resume decode r (now c),
      awaitingGenerate := awaitingGenerate c - 1\<rparr>" and p: "awaitingGenerate c \<noteq> 0"
    by (simp_all split: if_splits)
  from assms(1) p have l: "isLoading (ui (now c))"
    by (simp add: exclusive_def split: if_splits)
  from assms(1) l generate_resume_cells [of decode r "now c"] show ?thesis
    unfolding c' by (simp add: exclusive_def)
qed

lemma exclusive_PreviewSettled:
  assumes "exclusive c" "fire decode (PreviewSettled r) c = Some c'"
  shows "exclusive c'"
proof -
  from assms(2) have c': "c' = c\<lparr>now := handlePreviewVoice_resume decode r (now c),
      awaitingPreview := awaitingPreview c - 1\<rparr>" and p: "awaitingPreview c \<noteq> 0"
    by (simp_all split: if_splits)
  from assms(1) p have l: "truthyOpt (previewLoadingVoiceId (ui (now c)))"
    by (simp add: exclusive_def split: if_splits)
  from assms(1) l preview_resume_cells [of decode r "now c"] show ?thesis
    unfolding c' by (simp add: exclusive_def truthyOpt_def)
qed

lemma exclusive_AnalyzeSettled:
  assumes "exclusive c" "fire decode (AnalyzeSettled r) c = Some c'"
  shows "exclusive c'"
proof -
  from assms(2) have c': "c' = c\<lparr>now := handleAnalyzeScript_resume r (now c),
      awaitingAnalyze := awaitingAnalyze c - 1\<rparr>" and p: "awaitingAnalyze c \<noteq> 0"
    by (simp_all split: if_splits)
  from assms(1) p have l: "isAnalyzing (ui (now c))"
    by (simp add: exclusive_def split: if_splits)
  from assms(1) l analyze_resume_cells [of r "now c"] show ?thesis
    unfolding c' by (simp add: exclusive_def)
qed

lemma exclusive_setCells:
  assumes "exclusive c"
    "isLoading (f (ui (now c))) = isLoading (ui (now c))"
    "isAnalyzing (f (ui (now c))) = isAnalyzing (ui (now c))"
    "previewLoadingVoiceId (f (ui (now c))) = previewLoadingVoiceId (ui (now c))"
    "audioUrl (f (ui (now c))) = audioUrl (ui (now c))"
  shows "exclusive (setCells f c)"
  using assms by (simp add: exclusive_def setCells_def)

lemma exclusive_step:
  assumes "exclusive c" "fire decode e c = Some c'"
  shows "exclusive c'"
proof (cases e)
  case (SelectVoice v)
  with assms(2) have "c' = setCells (\<lambda>s. s\<lparr>selectedVoice := v, isVoiceListOpen := False\<rparr>) c"
    by (simp split: if_splits)
  with assms(1) show ?thesis by (simp add: exclusive_setCells)
next
  case (AudioEnded url)
  with assms(2) have "c' = c\<lparr>now := audioEnded url (now c)\<rparr>"
    by (simp split: if_splits)
  with assms(1) show ?thesis by (simp add: exclusive_def ui_audioEnded)
next
  case ClickAnalyze
  with assms show ?thesis by (simp only: exclusive_ClickAnalyze)
next
  case ClickGenerate
  with assms show ?thesis by (simp only: exclusive_ClickGenerate)
next
  case (ClickPreview v)
  with assms show ?thesis using exclusive_ClickPreview by blast
next
  case (AnalyzeSettled r)
  with assms show ?thesis using exclusive_AnalyzeSettled by blast
next
  case (GenerateSettled r)
  with assms show ?thesis using exclusive_GenerateSettled by blast
next
  case (PreviewSettled r)
  with assms show ?thesis using exclusive_PreviewSettled by blast
qed (use assms in \<open>auto simp add: exclusive_setCells\<close>)

lemma reachable_exclusive: "reachable decode c \<Longrightarrow> exclusive c"
  by (induction rule: reachable.induct) (auto intro: exclusive_initial exclusive_step)

lemma clickGenerate_initialWorld:
  "\<exists>request. clickGenerate initialWorld = (busyWorld, Some request)"
  using truthy_initial_text
  by (simp add: clickGenerate_def busyWorld_def handleGenerateSpeech_start_valid ui_initialWorld)
     (simp add: initialWorld_def initialState_def)

lemma reachable_busySession: "reachable decode busySession"
proof -
  from clickGenerate_initialWorld obtain request
    where "clickGenerate initialWorld = (busyWorld, Some request)" by blast
  then have "fire decode ClickGenerate initialSession = Some busySession"
    by (simp add: initialSession_def busySession_def dispatched_def)
  with reachable.initial [of decode] show ?thesis by (rule reachable.step)
qed

lemma clickGenerate_busy: "isLoading (ui w) \<Longrightarrow> clickGenerate w = (w, None)"
  by (simp add: clickGenerate_def)

lemma audioUrl_resume_fails:
  "generateFails decode r \<Longrightarrow>
   audioUrl (ui (handleGenerateSpeech_resume decode r w)) = audioUrl (ui w)"
  using handleGenerateSpeech_resume_fails [of decode r w] by auto

section \<open>Mutual exclusion of generate\<close>

text \<open>
  Where the guard lives. \<^verbatim>\<open>handleGenerateSpeech\<close> itself does not read \<^verbatim>\<open>isLoading\<close>: applied
  to the world where the first generate of a fresh session awaits its response, its first
  turn would issue a second request. Its only caller is the generate button, which is
  disabled while the flag is set, so no click reaches the handler in such a world.
\<close>

lemma handleGenerateSpeech_start_unguarded:
  "isLoading (ui busyWorld)
   \<and> handleGenerateSpeech_start busyWorld \<noteq> (busyWorld, None)
   \<and> snd (handleGenerateSpeech_start busyWorld) \<noteq> None
   \<and> length (requests busyWorld) = 1
   \<and> length (requests (fst (handleGenerateSpeech_start busyWorld))) = 2"
proof -
  have t: "truthy (trim (text_field (ui busyWorld)))"
    using truthy_initial_text by (simp add: busyWorld_eq)
  have l: "length (requests busyWorld) = 1" "isLoading (ui busyWorld)"
    by (simp_all add: busyWorld_eq)
  show ?thesis
    using l by (simp add: handleGenerateSpeech_start_valid [OF t])
qed

text \<open>
  Claim C2. In every state in which a generate is Dispatching, invoking generate a second
  time is rejected: no second remote call is issued and no state is modified. In every
  world where \<^verbatim>\<open>isLoading\<close> is set, a click on the generate button calls no handler, issues
  no request and leaves the whole world as it is. And in every reachable session where a
  generate awaits its response, \<^verbatim>\<open>isLoading\<close> is set, that run is the only one, and a click
  on generate issues no request and leaves the session, its list of requests included, as
  it is.
\<close>

theorem clickGenerate_while_busy:
  "(isLoading (ui w) \<longrightarrow>
      clickGenerate w = (w, None) \<and> requests (fst (clickGenerate w)) = requests w)
   \<and> (reachable decode c \<and> 0 < awaitingGenerate c \<longrightarrow>
        isLoading (ui (now c)) \<and> awaitingGenerate c = 1
        \<and> clickGenerate (now c) = (now c, None)
        \<and> fire decode ClickGenerate c = Some c)"
proof -
  have flag: "clickGenerate w = (w, None) \<and> requests (fst (clickGenerate w)) = requests w"
    if "isLoading (ui w)"
    using that by (simp add: clickGenerate_busy)
  have session: "isLoading (ui (now c)) \<and> awaitingGenerate c = 1
      \<and> clickGenerate (now c) = (now c, None)
      \<and> fire decode ClickGenerate c = Some c"
    if r: "reachable decode c" and a: "0 < awaitingGenerate c"
  proof -
    from reachable_exclusive [OF r] a have l: "isLoading (ui (now c))" "awaitingGenerate c = 1"
      by (simp_all add: exclusive_def split: if_splits)
    then show ?thesis by (simp add: clickGenerate_busy dispatched_def)
  qed
  from flag session show ?thesis by blast
qed

text \<open>The theorem in the world and the session where the first generate awaits its response.\<close>

theorem clickGenerate_while_busy_witness:
  "isLoading (ui busyWorld) \<and> clickGenerate busyWorld = (busyWorld, None)
   \<and> reachable sampleDecoder busySession \<and> 0 < awaitingGenerate busySession
   \<and> clickGenerate (now busySession) = (now busySession, None)
   \<and> fire sampleDecoder ClickGenerate busySession = Some busySession"
proof -
  have l: "isLoading (ui busyWorld)" by (simp add: busyWorld_eq)
  have a: "0 < awaitingGenerate busySession" by (simp add: busySession_def)
  from clickGenerate_while_busy [of busyWorld sampleDecoder busySession]
    l a reachable_busySession [of sampleDecoder]
  show ?thesis by blast
qed

section \<open>The request built by generate\<close>

text \<open>
  Claim C3. Whenever the text passes validation, the request that generate issues has
  the property \<^verbatim>\<open>rate\<close> exactly when \<^verbatim>\<open>speed\<close> is not 1.0 and the property \<^verbatim>\<open>pitch\<close> exactly
  when \<^verbatim>\<open>pitch\<close> is not 0.0, and a property that is present holds the input unchanged.
\<close>

theorem request_overrides:
  "truthy (trim (text_field (ui w))) \<Longrightarrow>
   \<exists>request. snd (handleGenerateSpeech_start w) = Some request
     \<and> requests (fst (handleGenerateSpeech_start w)) = requests w @ [request]
     \<and> rate (config request) = (if speed (ui w) = Finite 1 then None else Some (speed (ui w)))
     \<and> pitch' (config request) = (if pitch (ui w) = Finite 0 then None else Some (pitch (ui w)))"
  by (simp add: handleGenerateSpeech_start_valid rate_buildSpeechConfig pitch_buildSpeechConfig)

text \<open>The theorem at speed 1.5 and pitch 0: \<^verbatim>\<open>rate\<close> is 1.5 and \<^verbatim>\<open>pitch\<close> is absent.\<close>

theorem request_overrides_witness:
  "truthy (trim (text_field (ui (initialWorld\<lparr>ui := initialState\<lparr>speed := Finite (3/2)\<rparr>\<rparr>))))
   \<and> (\<exists>request.
        snd (handleGenerateSpeech_start (initialWorld\<lparr>ui := initialState\<lparr>speed := Finite (3/2)\<rparr>\<rparr>))
          = Some request
        \<and> rate (config request) = Some (Finite (3/2))
        \<and> pitch' (config request) = None)"
proof -
  let ?w = "initialWorld\<lparr>ui := initialState\<lparr>speed := Finite (3/2)\<rparr>\<rparr>"
  have t: "truthy (trim (text_field (ui ?w)))"
    using truthy_initial_text by simp
  have p: "pitch (ui ?w) = Finite 0" "speed (ui ?w) = Finite (3/2)"
    by (simp_all add: initialState_def)
  from request_overrides [OF t] t p show ?thesis by auto
qed

text \<open>
  Claim C4. Whenever the text is non-empty after trimming, the prompt of the request is
  the trimmed style instruction, two newlines and the trimmed text when the trimmed style
  instruction is non-empty, and the trimmed text alone otherwise.
\<close>

theorem prompt_assembly:
  "truthy (trim (text_field (ui w))) \<Longrightarrow>
   \<exists>request. snd (handleGenerateSpeech_start w) = Some request
     \<and> requests (fst (handleGenerateSpeech_start w)) = requests w @ [request]
     \<and> promptText request =
         (if trim (styleInstructions (ui w)) \<noteq> []
          then trim (styleInstructions (ui w)) @ utf16 ''\<newline>\<newline>'' @ trim (text_field (ui w))
          else trim (text_field (ui w)))"
  by (simp add: handleGenerateSpeech_start_valid fullPrompt_def truthy_def)

text \<open>
  The theorem at the style \<^verbatim>\<open>Read warmly:\<close> and the text \<^verbatim>\<open>Hi there\<close>, each padded with a
  space, and at the same text with an empty style.
\<close>

theorem prompt_assembly_witness:
  "truthy (trim (text_field (ui (initialWorld\<lparr>ui := initialState
      \<lparr>text_field := utf16 '' Hi there '', styleInstructions := utf16 ''Read warmly: ''\<rparr>\<rparr>))))
   \<and> (\<exists>request.
        snd (handleGenerateSpeech_start (initialWorld\<lparr>ui := initialState
          \<lparr>text_field := utf16 '' Hi there '', styleInstructions := utf16 ''Read warmly: ''\<rparr>\<rparr>))
          = Some request
        \<and> promptText request = utf16 ''Read warmly:\<newline>\<newline>Hi there'')
   \<and> (\<exists>request.
        snd (handleGenerateSpeech_start (initialWorld\<lparr>ui := initialState
          \<lparr>text_field := utf16 '' Hi there '', styleInstructions := []\<rparr>\<rparr>))
          = Some request
        \<and> promptText request = utf16 ''Hi there'')"
proof -
  let ?w = "initialWorld\<lparr>ui := initialState
      \<lparr>text_field := utf16 '' Hi there '', styleInstructions := utf16 ''Read warmly: ''\<rparr>\<rparr>"
  let ?v = "initialWorld\<lparr>ui := initialState
      \<lparr>text_field := utf16 '' Hi there '', styleInstructions := []\<rparr>\<rparr>"
  have a: "trim (text_field (ui ?w)) = utf16 ''Hi there''"
    "trim (text_field (ui ?v)) = utf16 ''Hi there''"
    by (simp_all add: trim_def utf16_def isWhiteSpace_def)
  have b: "trim (styleInstructions (ui ?w)) = utf16 ''Read warmly:''"
    "trim (styleInstructions (ui ?v)) = []"
    by (simp_all add: trim_def utf16_def isWhiteSpace_def)
  have t: "truthy (trim (text_field (ui ?w)))" "truthy (trim (text_field (ui ?v)))"
    unfolding a by (simp_all add: truthy_def utf16_def)
  from prompt_assembly [OF t(1)] prompt_assembly [OF t(2)] t(1) show ?thesis
    unfolding a b by (auto simp add: utf16_def)
qed

section \<open>Validation\<close>

text \<open>
  Claim C5. When the text is empty after trimming (by \<open>trim_eq_Nil_iff\<close>: when it is
  empty or holds only white space), generate returns in its first turn having only set
  the error cell to its validation message: it issues no request, and the busy flag and
  the displayed result are as before.
\<close>

theorem generate_empty_text:
  "trim (text_field (ui w)) = [] \<Longrightarrow>
   handleGenerateSpeech_start w =
     (w\<lparr>ui := (ui w)\<lparr>error := Some (utf16 ''Please enter some text to generate speech.'')\<rparr>\<rparr>,
      None)
   \<and> handleGenerateSpeech decode r w =
       w\<lparr>ui := (ui w)\<lparr>error := Some (utf16 ''Please enter some text to generate speech.'')\<rparr>\<rparr>
   \<and> requests (handleGenerateSpeech decode r w) = requests w
   \<and> isLoading (ui (handleGenerateSpeech decode r w)) = isLoading (ui w)
   \<and> audioUrl (ui (handleGenerateSpeech decode r w)) = audioUrl (ui w)"
  by (simp add: handleGenerateSpeech_def handleGenerateSpeech_start_empty truthy_def)

text \<open>The theorem for a text of two spaces, in a world that displays a result.\<close>

theorem generate_empty_text_witness:
  "trim (text_field (ui (shownWorld\<lparr>ui := (ui shownWorld)\<lparr>text_field := utf16 ''  ''\<rparr>\<rparr>))) = []
   \<and> snd (handleGenerateSpeech_start (shownWorld\<lparr>ui := (ui shownWorld)\<lparr>text_field := utf16 ''  ''\<rparr>\<rparr>))
       = None
   \<and> audioUrl (ui (handleGenerateSpeech sampleDecoder (Rejected [])
        (shownWorld\<lparr>ui := (ui shownWorld)\<lparr>text_field := utf16 ''  ''\<rparr>\<rparr>))) = audioUrl (ui shownWorld)"
proof -
  let ?w = "shownWorld\<lparr>ui := (ui shownWorld)\<lparr>text_field := utf16 ''  ''\<rparr>\<rparr>"
  have e: "trim (text_field (ui ?w)) = []"
    by (simp add: trim_def utf16_def isWhiteSpace_def)
  from generate_empty_text [OF e, of sampleDecoder "Rejected []"] e show ?thesis by simp
qed

text \<open>
  Claim C8. When the script is empty after trimming, analyze returns in its first turn
  having only set the error cell to its validation message: it issues no request, and the
  analyze busy flag and the style instruction are as before.
\<close>

theorem analyze_empty_script:
  "trim (narratorScript (ui w)) = [] \<Longrightarrow>
   handleAnalyzeScript_start w =
     (w\<lparr>ui := (ui w)\<lparr>error := Some (utf16 ''Please paste a script to analyze.'')\<rparr>\<rparr>, None)
   \<and> handleAnalyzeScript r w =
       w\<lparr>ui := (ui w)\<lparr>error := Some (utf16 ''Please paste a script to analyze.'')\<rparr>\<rparr>
   \<and> requests (handleAnalyzeScript r w) = requests w
   \<and> isAnalyzing (ui (handleAnalyzeScript r w)) = isAnalyzing (ui w)
   \<and> styleInstructions (ui (handleAnalyzeScript r w)) = styleInstructions (ui w)"
  by (simp add: handleAnalyzeScript_def handleAnalyzeScript_start_empty truthy_def)

text \<open>The theorem in the initial world, whose script is empty.\<close>

theorem analyze_empty_script_witness:
  "trim (narratorScript (ui initialWorld)) = []
   \<and> handleAnalyzeScript (Fulfilled \<lparr>candidates = None, response_text = Some (utf16 ''Sing:'')\<rparr>)
       initialWorld =
       initialWorld\<lparr>ui := initialState\<lparr>error := Some (utf16 ''Please paste a script to analyze.'')\<rparr>\<rparr>
   \<and> requests (handleAnalyzeScript
        (Fulfilled \<lparr>candidates = None, response_text = Some (utf16 ''Sing:'')\<rparr>) initialWorld) = []"
proof -
  have e: "trim (narratorScript (ui initialWorld)) = []"
    by (simp add: initialWorld_def initialState_def trim_def)
  have q: "requests initialWorld = []" by (simp add: initialWorld_def)
  from analyze_empty_script [OF e, of "Fulfilled \<lparr>candidates = None, response_text = Some (utf16 ''Sing:'')\<rparr>"]
    e q
  show ?thesis by (simp add: ui_initialWorld)
qed

section \<open>The displayed result and its object URL\<close>

text \<open>
  Claim C6 fails on the code. A second successful generate replaces the displayed
  handle, but the object URL of the first result is still registered afterwards with its
  blob: \<^verbatim>\<open>handleGenerateSpeech\<close> never calls \<^verbatim>\<open>URL.revokeObjectURL\<close>. In general
  (\<open>handleGenerateSpeech_success\<close>, \<open>handleGenerateSpeech_keeps_urls\<close>) a successful run
  displays the freshly created URL and leaves every other object URL as it was.
\<close>

theorem generate_keeps_superseded_url:
  "audioUrl (ui shownWorld) = Some (BlobURL 0)
   \<and> audioUrl (ui (handleGenerateSpeech sampleDecoder
        (Fulfilled (audioResponse (utf16 ''AAAAAA==''))) shownWorld)) = Some (BlobURL 1)
   \<and> objectURLs (handleGenerateSpeech sampleDecoder
        (Fulfilled (audioResponse (utf16 ''AAAAAA==''))) shownWorld) (BlobURL 0)
       = Some (pcmToWavBlob [0, 0, 0, 0] pcmFormat)"
proof -
  have t: "truthy (trim (text_field (ui shownWorld)))"
    using truthy_initial_text by (simp add: shownWorld_eq)
  show ?thesis
    apply (simp add: handleGenerateSpeech_valid [OF t] handleGenerateSpeech_start_valid [OF t])
    apply (simp add: handleGenerateSpeech_resume_def generateSpeech_try_def audioResponse_def
      base64AudioOf_def first_def truthy_def utf16_def sampleDecoder_def createObjectURL_def Let_def)
    apply (simp add: shownWorld_eq initialWorld_def)
    done
qed

text \<open>
  Claim C9. Whenever the text passes validation, generate issues its request from a
  world whose displayed result is already cleared; and if the remote call is rejected, the
  payload is missing or \<^verbatim>\<open>decode\<close> throws, the run ends with no result displayed, no object
  URL created, the busy flag cleared and the error cell set. Whatever happens between the
  two turns, no result is displayed while a generate awaits its response, nor after it
  has failed.
\<close>

theorem generate_failure_clears_result:
  "(truthy (trim (text_field (ui w))) \<longrightarrow>
      snd (handleGenerateSpeech_start w) \<noteq> None
      \<and> audioUrl (ui (fst (handleGenerateSpeech_start w))) = None
      \<and> (generateFails decode r \<longrightarrow>
           audioUrl (ui (handleGenerateSpeech decode r w)) = None
           \<and> objectURLs (handleGenerateSpeech decode r w) = objectURLs w
           \<and> isLoading (ui (handleGenerateSpeech decode r w)) = False
           \<and> (\<exists>m. error (ui (handleGenerateSpeech decode r w)) =
                  Some (utf16 ''An error occurred: '' @ m))))
   \<and> (reachable decode c \<and> 0 < awaitingGenerate c \<longrightarrow> audioUrl (ui (now c)) = None)
   \<and> (reachable decode c \<and> fire decode (GenerateSettled r) c = Some c' \<and> generateFails decode r
        \<longrightarrow> audioUrl (ui (now c')) = None)"
proof -
  have run: "snd (handleGenerateSpeech_start w) \<noteq> None
      \<and> audioUrl (ui (fst (handleGenerateSpeech_start w))) = None
      \<and> (generateFails decode r \<longrightarrow>
           audioUrl (ui (handleGenerateSpeech decode r w)) = None
           \<and> objectURLs (handleGenerateSpeech decode r w) = objectURLs w
           \<and> isLoading (ui (handleGenerateSpeech decode r w)) = False
           \<and> (\<exists>m. error (ui (handleGenerateSpeech decode r w)) =
                  Some (utf16 ''An error occurred: '' @ m)))"
    if t: "truthy (trim (text_field (ui w)))"
  proof -
    let ?w1 = "fst (handleGenerateSpeech_start w)"
    have s: "snd (handleGenerateSpeech_start w) \<noteq> None" "audioUrl (ui ?w1) = None"
      "objectURLs ?w1 = objectURLs w"
      by (simp_all add: handleGenerateSpeech_start_valid [OF t])
    have f: "audioUrl (ui (handleGenerateSpeech decode r w)) = None
          \<and> objectURLs (handleGenerateSpeech decode r w) = objectURLs w
          \<and> isLoading (ui (handleGenerateSpeech decode r w)) = False
          \<and> (\<exists>m. error (ui (handleGenerateSpeech decode r w)) =
                 Some (utf16 ''An error occurred: '' @ m))" if "generateFails decode r"
    proof -
      from handleGenerateSpeech_resume_fails [OF that, of ?w1]
      obtain m where m: "handleGenerateSpeech_resume decode r ?w1 =
        ?w1\<lparr>ui := (ui ?w1)\<lparr>error := Some (utf16 ''An error occurred: '' @ m), isLoading := False\<rparr>\<rparr>"
        by blast
      show ?thesis
        unfolding handleGenerateSpeech_valid [OF t] m using s by simp
    qed
    from s f show ?thesis by blast
  qed
  have awaiting: "audioUrl (ui (now c)) = None"
    if "reachable decode c" "0 < awaitingGenerate c"
    using reachable_exclusive [OF that(1)] that(2)
    by (simp add: exclusive_def split: if_splits)
  have settled: "audioUrl (ui (now c')) = None"
    if r: "reachable decode c" and f: "fire decode (GenerateSettled r) c = Some c'"
      and g: "generateFails decode r"
  proof -
    from f have c': "c' = c\<lparr>now := handleGenerateSpeech_resume decode r (now c),
        awaitingGenerate := awaitingGenerate c - 1\<rparr>" and p: "0 < awaitingGenerate c"
      by (simp_all split: if_splits)
    from awaiting [OF r p] audioUrl_resume_fails [OF g, of "now c"] show ?thesis
      unfolding c' by simp
  qed
  from run awaiting settled show ?thesis by blast
qed

text \<open>
  The theorem for a rejected call, in a world that displays a result and in the session
  where the first generate awaits its response.
\<close>

theorem generate_failure_clears_result_witness:
  "truthy (trim (text_field (ui shownWorld)))
   \<and> audioUrl (ui shownWorld) = Some (BlobURL 0)
   \<and> generateFails sampleDecoder (Rejected (utf16 ''offline''))
   \<and> audioUrl (ui (handleGenerateSpeech sampleDecoder (Rejected (utf16 ''offline'')) shownWorld))
       = None
   \<and> reachable sampleDecoder busySession \<and> 0 < awaitingGenerate busySession
   \<and> audioUrl (ui (now busySession)) = None
   \<and> (\<exists>c'. fire sampleDecoder (GenerateSettled (Rejected (utf16 ''offline''))) busySession = Some c'
         \<and> audioUrl (ui (now c')) = None)"
proof -
  have t: "truthy (trim (text_field (ui shownWorld)))"
    using truthy_initial_text by (simp add: shownWorld_eq)
  have g: "generateFails sampleDecoder (Rejected (utf16 ''offline''))"
    by (simp add: generateFails_def)
  have a: "audioUrl (ui shownWorld) = Some (BlobURL 0)"
    by (simp add: shownWorld_eq)
  have p: "0 < awaitingGenerate busySession" by (simp add: busySession_def)
  obtain c' where
    f: "fire sampleDecoder (GenerateSettled (Rejected (utf16 ''offline''))) busySession = Some c'"
    by (simp add: busySession_def)
  from generate_failure_clears_result
    [of shownWorld sampleDecoder "Rejected (utf16 ''offline'')" busySession c']
    t g a p f reachable_busySession [of sampleDecoder]
  show ?thesis by blast
qed

section \<open>Preview and analyze\<close>

text \<open>
  Claim C7. When a preview passes its busy check and its remote call is rejected, the
  run ends with \<^verbatim>\<open>previewLoadingVoiceId\<close> cleared and the error cell holding
  \<^verbatim>\<open>Preview failed: \<close> followed by the message; no object URL is created and no audio
  element is started.
\<close>

theorem previewVoice_rejected:
  "\<not> truthyOpt (previewLoadingVoiceId (ui w)) \<Longrightarrow>
   requests (handlePreviewVoice decode (Rejected message) voiceId w) =
     requests w @
       [SpeechParams ttsModel PREVIEW_TEXT \<lparr>voiceName = voiceId, rate = None, pitch' = None\<rparr>]
   \<and> previewLoadingVoiceId (ui (handlePreviewVoice decode (Rejected message) voiceId w)) = None
   \<and> error (ui (handlePreviewVoice decode (Rejected message) voiceId w)) =
       Some (utf16 ''Preview failed: '' @ message)
   \<and> objectURLs (handlePreviewVoice decode (Rejected message) voiceId w) = objectURLs w
   \<and> nextURL (handlePreviewVoice decode (Rejected message) voiceId w) = nextURL w
   \<and> audios (handlePreviewVoice decode (Rejected message) voiceId w) = audios w"
  by (simp add: handlePreviewVoice_def handlePreviewVoice_start_idle
      handlePreviewVoice_resume_rejected)

text \<open>The theorem for the voice \<^verbatim>\<open>kore\<close> in the initial world, rejected with \<^verbatim>\<open>quota\<close>.\<close>

theorem previewVoice_rejected_witness:
  "\<not> truthyOpt (previewLoadingVoiceId (ui initialWorld))
   \<and> previewLoadingVoiceId (ui (handlePreviewVoice sampleDecoder (Rejected (utf16 ''quota''))
        (utf16 ''kore'') initialWorld)) = None
   \<and> error (ui (handlePreviewVoice sampleDecoder (Rejected (utf16 ''quota''))
        (utf16 ''kore'') initialWorld)) = Some (utf16 ''Preview failed: quota'')
   \<and> audios (handlePreviewVoice sampleDecoder (Rejected (utf16 ''quota''))
        (utf16 ''kore'') initialWorld) = []"
proof -
  have i: "\<not> truthyOpt (previewLoadingVoiceId (ui initialWorld))"
    by (simp add: initialWorld_def initialState_def truthyOpt_def)
  have a: "audios initialWorld = []" by (simp add: initialWorld_def)
  from previewVoice_rejected [OF i, of sampleDecoder "utf16 ''quota''" "utf16 ''kore''"] i a
  show ?thesis by (simp add: utf16_def)
qed

text \<open>
  Claim C10. Whatever the outcome, a run of preview changes no state cell other than
  \<^verbatim>\<open>previewLoadingVoiceId\<close> and \<^verbatim>\<open>error\<close>, and a run of analyze changes no state cell other
  than \<^verbatim>\<open>isAnalyzing\<close>, \<^verbatim>\<open>error\<close> and \<^verbatim>\<open>styleInstructions\<close>, the last one only when validation
  passes and the call is fulfilled with a text. In particular the displayed result, the
  text, the selected voice, the speed and the pitch are as before.
\<close>

theorem preview_analyze_frame:
  "(ui (handlePreviewVoice decode r voiceId w))\<lparr>previewLoadingVoiceId := None, error := None\<rparr> =
     (ui w)\<lparr>previewLoadingVoiceId := None, error := None\<rparr>
   \<and> audioUrl (ui (handlePreviewVoice decode r voiceId w)) = audioUrl (ui w)
   \<and> text_field (ui (handlePreviewVoice decode r voiceId w)) = text_field (ui w)
   \<and> selectedVoice (ui (handlePreviewVoice decode r voiceId w)) = selectedVoice (ui w)
   \<and> speed (ui (handlePreviewVoice decode r voiceId w)) = speed (ui w)
   \<and> pitch (ui (handlePreviewVoice decode r voiceId w)) = pitch (ui w)
   \<and> (ui (handleAnalyzeScript r w))\<lparr>isAnalyzing := False, error := None\<rparr> =
     (ui w)\<lparr>isAnalyzing := False, error := None,
        styleInstructions :=
          (if truthy (trim (narratorScript (ui w))) then
             (case r of
                Fulfilled response \<Rightarrow>
                  (case response_text response of
                     Some t \<Rightarrow> trim t
                   | None \<Rightarrow> styleInstructions (ui w))
              | Rejected message \<Rightarrow> styleInstructions (ui w))
           else styleInstructions (ui w))\<rparr>
   \<and> audioUrl (ui (handleAnalyzeScript r w)) = audioUrl (ui w)
   \<and> text_field (ui (handleAnalyzeScript r w)) = text_field (ui w)
   \<and> selectedVoice (ui (handleAnalyzeScript r w)) = selectedVoice (ui w)
   \<and> speed (ui (handleAnalyzeScript r w)) = speed (ui w)
   \<and> pitch (ui (handleAnalyzeScript r w)) = pitch (ui w)"
  using preview_cells [OF handlePreviewVoice_frame [of decode r voiceId w]]
    analyze_cells [OF handleAnalyzeScript_frame [of r w]]
    handlePreviewVoice_frame [of decode r voiceId w] handleAnalyzeScript_frame [of r w]
  by blast

end
